theory Spec2Isabelle
  imports Complex_Main
begin

section \<open>Spring controllers of packages/labs/motion/src/spring.ts\<close>

text \<open>
  The file defines two reactive controllers. \<open>SpringController\<close> wraps one \<open>Spring\<close>
  object of the \<open>wobble\<close> package and remembers the target it was last given;
  \<open>SpringController2D\<close> combines two such controllers, one per axis.

  Conventions of the embedding:
  \<^item> a stored JavaScript \<open>number\<close> is a finite number, a \<open>real\<close>: values are stored
    and passed on unchanged everywhere except in the 2D \<open>currentVelocity\<close>, the one
    place that computes; the value computed there is a \<open>js_number\<close>, an IEEE 754
    double with rounding to nearest, overflow to infinity and NaN;
  \<^item> a private field \<open>_name\<close> of a class is the record field \<open>u_name\<close>;
  \<^item> a method that mutates \<open>this\<close> takes the object and returns the updated object;
  \<^item> \<open>this._host\<close> is a reference to the host element; the element's state at the
    time of a call is the \<open>Host\<close> argument of the operation;
  \<^item> the \<open>wobble\<close> library is not part of this file: its \<open>Spring\<close> class is a
    parameter of every operation, a record \<open>W\<close> holding the constructor, the methods and
    the getters the controllers call.
\<close>

subsection \<open>Values and option objects\<close>

type_synonym number = real

text \<open>\<open>interface Position2D {x: number; y: number}\<close>; the fields are named
  \<open>pos_x\<close> and \<open>pos_y\<close> to leave \<open>x\<close> and \<open>y\<close> free as variable names.\<close>

record Position2D =
  pos_x :: number
  pos_y :: number

text \<open>The values found under the keys of an option object. \<open>Partial\<close> makes every key
  optional, and a key may be present with the value \<open>undefined\<close>.\<close>

datatype jsval = JUndefined | JNum number | JBool bool | JPos Position2D

text \<open>An option object (\<open>Partial<WobbleSpringConfig>\<close>, \<open>Spring2DConfig\<close>) maps property
  names to values; the parameter \<open>options?\<close> is \<open>None\<close> when the caller passes nothing.\<close>

type_synonym config = "string \<rightharpoonup> jsval"

text \<open>\<open>options?.key\<close>: the property of an object that may be undefined.\<close>

definition opt_prop :: "config option \<Rightarrow> string \<Rightarrow> jsval option" where
  "opt_prop options k = (case options of None \<Rightarrow> None | Some obj \<Rightarrow> obj k)"

text \<open>\<open>v ?? d\<close> at a property declared \<open>number | undefined\<close>: a missing key and the
  value \<open>undefined\<close> give the default (no other kind of value is admitted by the type).\<close>

definition nullish_number :: "jsval option \<Rightarrow> number \<Rightarrow> number" where
  "nullish_number v d = (case v of Some (JNum n) \<Rightarrow> n | _ \<Rightarrow> d)"

text \<open>\<open>v ?? d\<close> at a property declared \<open>Position2D | undefined\<close>.\<close>

definition nullish_position :: "jsval option \<Rightarrow> Position2D \<Rightarrow> Position2D" where
  "nullish_position v d = (case v of Some (JPos p) \<Rightarrow> p | _ \<Rightarrow> d)"

text \<open>The object literal \<open>{...options, toValue: v}\<close>: every property of \<open>options\<close> (none
  when it is undefined), then \<open>toValue\<close> set to \<open>v\<close>.\<close>

definition spread :: "config option \<Rightarrow> config" where
  "spread options = (case options of None \<Rightarrow> Map.empty | Some obj \<Rightarrow> obj)"

definition axis_options :: "config option \<Rightarrow> number \<Rightarrow> config" where
  "axis_options options v = (spread options)(''toValue'' \<mapsto> JNum v)"

subsection \<open>Arithmetic on numbers\<close>








subsection \<open>The host element and the wobble Spring\<close>

text \<open>Of the host (\<open>ReactiveControllerHost & HTMLElement\<close>) the controllers read
  \<open>isConnected\<close> and call \<open>addController\<close>; the host keeps count of the controllers
  registered with it.\<close>

record Host =
  isConnected :: bool
  controllers :: nat

definition addController :: "Host \<Rightarrow> Host" where
  "addController host = host\<lparr>controllers := Suc (controllers host)\<rparr>"

text \<open>The one listener the controller registers: \<open>() => this._host.requestUpdate()\<close>.\<close>

datatype listener = RequestUpdate

datatype error = ConfigurationError

text \<open>The interface of \<open>wobble\<close>'s \<open>Spring\<close> as this file uses it, over any type \<open>'s\<close>
  of spring states. The constructor may throw; the methods return the spring.\<close>

record 's wobble =
  spring_new :: "config option \<Rightarrow> error + 's"
  spring_onUpdate :: "listener \<Rightarrow> 's \<Rightarrow> 's"
  spring_updateConfig :: "config \<Rightarrow> 's \<Rightarrow> 's"
  spring_start :: "'s \<Rightarrow> 's"
  spring_stop :: "'s \<Rightarrow> 's"
  spring_currentValue :: "'s \<Rightarrow> number"
  spring_currentVelocity :: "'s \<Rightarrow> number"
  spring_isAtRest :: "'s \<Rightarrow> bool"
  spring_isAnimating :: "'s \<Rightarrow> bool"

subsection \<open>SpringController\<close>

record 's SpringController =
  u_spring :: 's
  u_toValue :: number

text \<open>The constructor registers the controller with the host first, then reads the
  target, builds the spring from the same options and registers the update listener.
  An exception of \<open>new Spring(options)\<close> leaves the constructor; the host has been
  changed by then.\<close>

definition SpringController_new ::
  "'s wobble \<Rightarrow> Host \<Rightarrow> config option \<Rightarrow> Host \<times> (error + 's SpringController)" where
  "SpringController_new W host options =
     (let host1 = addController host;
          tv = nullish_number (opt_prop options ''toValue'') 0
      in case spring_new W options of
           Inl e \<Rightarrow> (host1, Inl e)
         | Inr s \<Rightarrow>
             (host1, Inr \<lparr>u_spring = spring_onUpdate W RequestUpdate s, u_toValue = tv\<rparr>))"

definition currentValue :: "'s wobble \<Rightarrow> 's SpringController \<Rightarrow> number" where
  "currentValue W c = spring_currentValue W (u_spring c)"

definition currentVelocity :: "'s wobble \<Rightarrow> 's SpringController \<Rightarrow> number" where
  "currentVelocity W c = spring_currentVelocity W (u_spring c)"

definition isAtRest :: "'s wobble \<Rightarrow> 's SpringController \<Rightarrow> bool" where
  "isAtRest W c = spring_isAtRest W (u_spring c)"

definition isAnimating :: "'s wobble \<Rightarrow> 's SpringController \<Rightarrow> bool" where
  "isAnimating W c = spring_isAnimating W (u_spring c)"

definition toValue :: "'s SpringController \<Rightarrow> number" where
  "toValue c = u_toValue c"

text \<open>The setter: store the target, send the spring the patch \<open>{toValue}\<close>, and start
  the spring when the host element is connected.\<close>

definition set_toValue ::
  "'s wobble \<Rightarrow> Host \<Rightarrow> number \<Rightarrow> 's SpringController \<Rightarrow> 's SpringController" where
  "set_toValue W host v c =
     (let c1 = c\<lparr>u_toValue := v\<rparr>;
          c2 = c1\<lparr>u_spring := spring_updateConfig W [''toValue'' \<mapsto> JNum v] (u_spring c1)\<rparr>
      in if isConnected host then c2\<lparr>u_spring := spring_start W (u_spring c2)\<rparr> else c2)"

definition hostConnected :: "'s wobble \<Rightarrow> 's SpringController \<Rightarrow> 's SpringController" where
  "hostConnected W c = c\<lparr>u_spring := spring_start W (u_spring c)\<rparr>"

definition hostDisconnected :: "'s wobble \<Rightarrow> 's SpringController \<Rightarrow> 's SpringController" where
  "hostDisconnected W c = c\<lparr>u_spring := spring_stop W (u_spring c)\<rparr>"

subsection \<open>SpringController2D\<close>

record 's SpringController2D =
  u_xSpring :: "'s SpringController"
  u_ySpring :: "'s SpringController"
  u_toPosition :: Position2D

text \<open>The constructor builds the x axis, then the y axis, on the same host; the first
  exception ends it. The 2D controller does not register itself with the host.\<close>

definition SpringController2D_new ::
  "'s wobble \<Rightarrow> Host \<Rightarrow> config option \<Rightarrow> Host \<times> (error + 's SpringController2D)" where
  "SpringController2D_new W host options =
     (let tp = nullish_position (opt_prop options ''toPosition'') \<lparr>pos_x = 0, pos_y = 0\<rparr>
      in case SpringController_new W host (Some (axis_options options (pos_x tp))) of
           (host1, Inl e) \<Rightarrow> (host1, Inl e)
         | (host1, Inr xs) \<Rightarrow>
             (case SpringController_new W host1 (Some (axis_options options (pos_y tp))) of
                (host2, Inl e) \<Rightarrow> (host2, Inl e)
              | (host2, Inr ys) \<Rightarrow>
                  (host2, Inr \<lparr>u_xSpring = xs, u_ySpring = ys, u_toPosition = tp\<rparr>)))"

definition currentPosition :: "'s wobble \<Rightarrow> 's SpringController2D \<Rightarrow> Position2D" where
  "currentPosition W c =
     \<lparr>pos_x = currentValue W (u_xSpring c), pos_y = currentValue W (u_ySpring c)\<rparr>"


definition isAtRest2D :: "'s wobble \<Rightarrow> 's SpringController2D \<Rightarrow> bool" where
  "isAtRest2D W c = (isAtRest W (u_xSpring c) \<and> isAtRest W (u_ySpring c))"

definition isAnimating2D :: "'s wobble \<Rightarrow> 's SpringController2D \<Rightarrow> bool" where
  "isAnimating2D W c = (isAnimating W (u_xSpring c) \<or> isAnimating W (u_ySpring c))"

definition toPosition :: "'s SpringController2D \<Rightarrow> Position2D" where
  "toPosition c = u_toPosition c"

definition set_toPosition ::
  "'s wobble \<Rightarrow> Host \<Rightarrow> Position2D \<Rightarrow> 's SpringController2D \<Rightarrow> 's SpringController2D" where
  "set_toPosition W host v c =
     (let c1 = c\<lparr>u_toPosition := v\<rparr>;
          c2 = c1\<lparr>u_xSpring := set_toValue W host (pos_x v) (u_xSpring c1)\<rparr>
      in c2\<lparr>u_ySpring := set_toValue W host (pos_y v) (u_ySpring c2)\<rparr>)"

definition hostConnected2D :: "'s wobble \<Rightarrow> 's SpringController2D \<Rightarrow> 's SpringController2D" where
  "hostConnected2D W c =
     (let c1 = c\<lparr>u_xSpring := hostConnected W (u_xSpring c)\<rparr>
      in c1\<lparr>u_ySpring := hostConnected W (u_ySpring c1)\<rparr>)"

definition hostDisconnected2D :: "'s wobble \<Rightarrow> 's SpringController2D \<Rightarrow> 's SpringController2D" where
  "hostDisconnected2D W c =
     (let c1 = c\<lparr>u_xSpring := hostDisconnected W (u_xSpring c)\<rparr>
      in c1\<lparr>u_ySpring := hostDisconnected W (u_ySpring c1)\<rparr>)"

subsection \<open>A spring that records what it is sent\<close>

text \<open>
  What the controllers do to their spring is a sequence of calls. This instance of the
  interface keeps the options its constructor received and every method call in the
  order made; it accepts every configuration and its getters report nothing.
\<close>

datatype call = OnUpdate listener | UpdateConfig config | Start | Stop

record recording =
  received :: "config option"
  calls :: "call list"

definition recorder :: "recording wobble" where
  "recorder =
     \<lparr>spring_new = (\<lambda>options. Inr \<lparr>received = options, calls = []\<rparr>),
      spring_onUpdate = (\<lambda>l s. s\<lparr>calls := calls s @ [OnUpdate l]\<rparr>),
      spring_updateConfig = (\<lambda>patch s. s\<lparr>calls := calls s @ [UpdateConfig patch]\<rparr>),
      spring_start = (\<lambda>s. s\<lparr>calls := calls s @ [Start]\<rparr>),
      spring_stop = (\<lambda>s. s\<lparr>calls := calls s @ [Stop]\<rparr>),
      spring_currentValue = (\<lambda>s. 0),
      spring_currentVelocity = (\<lambda>s. 0),
      spring_isAtRest = (\<lambda>s. False),
      spring_isAnimating = (\<lambda>s. False)\<rparr>"

subsection \<open>A spring held in a given kinetic state\<close>


subsection \<open>The spring of the specification\<close>

text \<open>
  Modelled from the spec: the \<open>Spring\<close> class of the \<open>wobble\<close> package (constructor,
  \<open>updateConfig\<close>, \<open>start\<close>, \<open>stop\<close>, \<open>onUpdate\<close> and the four getters), which the
  controllers import and which is not among the sources. Sections 3, 4.1 and 7 of the
  specification give its state (position, velocity, target, status, last-step
  timestamp, configuration, update notifier), the validity of a configuration and the
  effect of each operation. Stepping is driven by the environment's frame callbacks and
  is not an operation the controllers call. The key \<open>fromValue\<close> for the starting
  position is the one the source names beside \<open>toValue\<close>.
\<close>

text \<open>Modelled from the spec: the states of the state machine of section 4.1.\<close>

datatype status = Idle | Running | Stopped

text \<open>Modelled from the spec: \<open>SpringState\<close> of section 3, with the configuration and
  the update notifier a spring owns beside it.\<close>

record SpringState =
  position :: number
  velocity :: number
  target :: number
  status :: status
  lastStep :: number
  params :: config
  notifier :: "listener option"

text \<open>Modelled from the spec: the fields of a spring configuration (section 3).\<close>

definition config_keys :: "string list" where
  "config_keys =
     [''mass'', ''stiffness'', ''damping'', ''initialVelocity'', ''overshootClamping'',
      ''restDisplacementThreshold'', ''restVelocityThreshold'', ''toValue'', ''fromValue'']"

text \<open>Modelled from the spec: a constraint on a numeric field holds of the number given
  under it; a field that is not given takes the library's default.\<close>

definition field_ok :: "(number \<Rightarrow> bool) \<Rightarrow> jsval option \<Rightarrow> bool" where
  "field_ok P v = (case v of Some (JNum n) \<Rightarrow> P n | _ \<Rightarrow> True)"

text \<open>Modelled from the spec: the invariant of section 3: mass and stiffness strictly
  positive, damping and both thresholds non-negative.\<close>

definition config_ok :: "config \<Rightarrow> bool" where
  "config_ok cfg =
     (field_ok (\<lambda>m. 0 < m) (cfg ''mass'')
      \<and> field_ok (\<lambda>k. 0 < k) (cfg ''stiffness'')
      \<and> field_ok (\<lambda>d. 0 \<le> d) (cfg ''damping'')
      \<and> field_ok (\<lambda>t. 0 \<le> t) (cfg ''restDisplacementThreshold'')
      \<and> field_ok (\<lambda>t. 0 \<le> t) (cfg ''restVelocityThreshold''))"

text \<open>Modelled from the spec: construction fails fast on an invalid configuration
  (sections 3 and 7); otherwise the spring is idle at its starting position with the
  initial velocity and the initial target. \<open>now\<close> is the clock reading.\<close>

definition spec_new :: "number \<Rightarrow> config option \<Rightarrow> error + SpringState" where
  "spec_new now options =
     (let cfg = spread options |` set config_keys
      in if config_ok cfg
         then Inr \<lparr>position = nullish_number (cfg ''fromValue'') 0,
                   velocity = nullish_number (cfg ''initialVelocity'') 0,
                   target = nullish_number (cfg ''toValue'') 0,
                   status = Idle, lastStep = now, params = cfg, notifier = None\<rparr>
         else Inl ConfigurationError)"

text \<open>Modelled from the spec: a reconfiguration merges the given fields, is rejected at
  the call when the result is invalid (section 7), and otherwise changes the
  configuration and the target in place, never position or velocity (sections 4.1, 6).\<close>

definition spec_updateConfig :: "config \<Rightarrow> SpringState \<Rightarrow> error + SpringState" where
  "spec_updateConfig patch s =
     (let cfg = params s ++ (patch |` set config_keys)
      in if config_ok cfg
         then Inr (s\<lparr>params := cfg, target := nullish_number (cfg ''toValue'') (target s)\<rparr>)
         else Inl ConfigurationError)"

text \<open>Modelled from the spec: \<open>start()\<close> takes Idle and Stopped to Running and resets the
  last-step timestamp, and does nothing to a running spring (section 4.1).\<close>

definition spec_start :: "number \<Rightarrow> SpringState \<Rightarrow> SpringState" where
  "spec_start now s = (if status s = Running then s else s\<lparr>status := Running, lastStep := now\<rparr>)"

text \<open>Modelled from the spec: \<open>stop()\<close> takes Running to Stopped and freezes the spring
  where it is (section 4.1).\<close>

definition spec_stop :: "SpringState \<Rightarrow> SpringState" where
  "spec_stop s = (if status s = Running then s\<lparr>status := Stopped\<rparr> else s)"

text \<open>Modelled from the spec: a spring is at rest when it is idle with displacement and
  velocity within the thresholds (section 4.1 and the glossary).\<close>

definition spec_isAtRest :: "SpringState \<Rightarrow> bool" where
  "spec_isAtRest s =
     (status s = Idle
      \<and> \<bar>position s - target s\<bar> \<le> nullish_number (params s ''restDisplacementThreshold'') 0
      \<and> \<bar>velocity s\<bar> \<le> nullish_number (params s ''restVelocityThreshold'') 0)"

text \<open>Modelled from the spec: the \<open>Spring\<close> class as the controllers call it, with the
  operations above; the spring is animating iff it is Running, and its current value
  and velocity are its position and velocity. The interface's \<open>updateConfig\<close> returns
  the spring, so a rejected patch shows here as an unchanged spring; the rejection
  itself is \<open>spec_updateConfig\<close>'s result.\<close>

definition specSpring :: "number \<Rightarrow> SpringState wobble" where
  "specSpring now =
     \<lparr>spring_new = spec_new now,
      spring_onUpdate = (\<lambda>l s. s\<lparr>notifier := Some l\<rparr>),
      spring_updateConfig =
        (\<lambda>patch s. case spec_updateConfig patch s of Inl e \<Rightarrow> s | Inr s' \<Rightarrow> s'),
      spring_start = spec_start now,
      spring_stop = spec_stop,
      spring_currentValue = position,
      spring_currentVelocity = velocity,
      spring_isAtRest = spec_isAtRest,
      spring_isAnimating = (\<lambda>s. status s = Running)\<rparr>"

section \<open>Auxiliary facts\<close>

subsection \<open>Rounding to a double\<close>













subsection \<open>The recording spring\<close>

lemma recorder_new: "spring_new recorder options = Inr \<lparr>received = options, calls = []\<rparr>"
  by (simp add: recorder_def)

lemma recorder_onUpdate:
  "spring_onUpdate recorder l s = s\<lparr>calls := calls s @ [OnUpdate l]\<rparr>"
  by (simp add: recorder_def)

lemma SpringController_new_recorder:
  "SpringController_new recorder host options =
     (addController host,
      Inr \<lparr>u_spring = \<lparr>received = options, calls = [OnUpdate RequestUpdate]\<rparr>,
           u_toValue = nullish_number (opt_prop options ''toValue'') 0\<rparr>)"
  by (simp add: SpringController_new_def recorder_new recorder_onUpdate Let_def)

subsection \<open>What the setter leaves alone\<close>

text \<open>Whatever the spring is: an observation that the patch \<open>{toValue}\<close> and \<open>start()\<close>
  leave alone is left alone by the setter, which sends the spring nothing else.\<close>

lemma set_toValue_keeps_observation:
  assumes "obs (spring_updateConfig W [''toValue'' \<mapsto> JNum v] (u_spring c)) = obs (u_spring c)"
    and "\<And>s. obs (spring_start W s) = obs s"
  shows "obs (u_spring (set_toValue W host v c)) = obs (u_spring c)"
  using assms by (simp add: set_toValue_def Let_def)

subsection \<open>The spring of the specification\<close>

lemma spec_updateConfig_toValue:
  "spec_updateConfig [''toValue'' \<mapsto> JNum v] s =
     (if config_ok (params s)
      then Inr (s\<lparr>params := (params s)(''toValue'' \<mapsto> JNum v), target := v\<rparr>)
      else Inl ConfigurationError)"
proof -
  have merged: "params s ++ ([''toValue'' \<mapsto> JNum v] |` set config_keys)
      = (params s)(''toValue'' \<mapsto> JNum v)"
    by (simp add: config_keys_def)
  have ok: "config_ok ((params s)(''toValue'' \<mapsto> JNum v)) = config_ok (params s)"
    by (simp add: config_ok_def)
  show ?thesis
    unfolding spec_updateConfig_def merged Let_def ok
    by (simp add: nullish_number_def)
qed

lemma specSpring_updateConfig_toValue:
  "spring_updateConfig (specSpring now) [''toValue'' \<mapsto> JNum v] s =
     (if config_ok (params s)
      then s\<lparr>params := (params s)(''toValue'' \<mapsto> JNum v), target := v\<rparr>
      else s)"
  by (simp add: specSpring_def spec_updateConfig_toValue)

lemma spec_start_kinetic:
  "position (spec_start now s) = position s"
  "velocity (spec_start now s) = velocity s"
  "target (spec_start now s) = target s"
  by (simp_all add: spec_start_def)

lemma invalid_not_ok:
  assumes "cfg ''mass'' = Some (JNum m) \<and> m \<le> 0
     \<or> cfg ''stiffness'' = Some (JNum k) \<and> k \<le> 0
     \<or> cfg ''damping'' = Some (JNum d) \<and> d < 0
     \<or> cfg ''restDisplacementThreshold'' = Some (JNum t) \<and> t < 0
     \<or> cfg ''restVelocityThreshold'' = Some (JNum u) \<and> u < 0"
  shows "\<not> config_ok cfg"
  using assms by (auto simp: config_ok_def field_ok_def)

text \<open>Validity looks at five keys only.\<close>

lemma config_ok_cong:
  assumes "\<And>k. k \<in> set [''mass'', ''stiffness'', ''damping'', ''restDisplacementThreshold'',
             ''restVelocityThreshold''] \<Longrightarrow> a k = b k"
  shows "config_ok a = config_ok b"
  using assms by (simp add: config_ok_def)

lemma config_ok_restrict: "config_ok (cfg |` set config_keys) = config_ok cfg"
  by (rule config_ok_cong) (auto simp: restrict_map_def config_keys_def)

lemma config_ok_axis: "config_ok (axis_options options v) = config_ok (spread options)"
  by (rule config_ok_cong) (auto simp: axis_options_def)

lemma spec_new_invalid:
  "\<not> config_ok (spread options) \<Longrightarrow> spec_new now options = Inl ConfigurationError"
  by (simp add: spec_new_def config_ok_restrict Let_def)

lemma merged_invalid:
  assumes "cfg ''mass'' = Some (JNum m) \<and> m \<le> 0
     \<or> cfg ''stiffness'' = Some (JNum k) \<and> k \<le> 0
     \<or> cfg ''damping'' = Some (JNum d) \<and> d < 0
     \<or> cfg ''restDisplacementThreshold'' = Some (JNum t) \<and> t < 0
     \<or> cfg ''restVelocityThreshold'' = Some (JNum u) \<and> u < 0"
  shows "\<not> config_ok (old ++ (cfg |` set config_keys))"
  using assms
  by (auto simp: config_ok_def field_ok_def map_add_def restrict_map_def config_keys_def)


subsection \<open>Springs that do not read \<open>fromPosition\<close>\<close>



section \<open>Properties\<close>

text \<open>
  C1. The aggregate predicates of the 2D controller: \<open>isAtRest\<close> holds exactly when
  both the x-axis and the y-axis springs are at rest, \<open>isAnimating\<close> exactly when at
  least one of the two is animating.
\<close>

theorem rest_is_conjunction_animating_is_disjunction:
  "isAtRest2D W c =
     (spring_isAtRest W (u_spring (u_xSpring c)) \<and> spring_isAtRest W (u_spring (u_ySpring c)))
   \<and> isAnimating2D W c =
     (spring_isAnimating W (u_spring (u_xSpring c))
      \<or> spring_isAnimating W (u_spring (u_ySpring c)))"
  by (simp add: isAtRest2D_def isAnimating2D_def isAtRest_def isAnimating_def)

text \<open>
  C2. Assigning \<open>toValue\<close> stores the target, so that the getter returns it, and sends
  the spring the patch \<open>{toValue}\<close>; \<open>start()\<close> follows exactly when the host element is
  connected. For the recording spring the calls added are \<open>updateConfig\<close> and, iff the
  host is connected, \<open>start\<close>. When the host is not connected nothing but the stored
  target and the spring's configuration changes, and the next \<open>hostConnected\<close> starts
  the retargeted spring.
\<close>

theorem toValue_setter_retargets_and_starts_iff_connected:
  "toValue (set_toValue W host v c) = v
   \<and> u_spring (set_toValue W host v c) =
       (if isConnected host
        then spring_start W (spring_updateConfig W [''toValue'' \<mapsto> JNum v] (u_spring c))
        else spring_updateConfig W [''toValue'' \<mapsto> JNum v] (u_spring c))
   \<and> calls (u_spring (set_toValue recorder host v r)) =
       calls (u_spring r) @ UpdateConfig [''toValue'' \<mapsto> JNum v]
         # (if isConnected host then [Start] else [])
   \<and> (Start \<in> set (drop (length (calls (u_spring r)))
                     (calls (u_spring (set_toValue recorder host v r))))) = isConnected host
   \<and> u_spring (hostConnected W (set_toValue W (host\<lparr>isConnected := False\<rparr>) v c)) =
       spring_start W (spring_updateConfig W [''toValue'' \<mapsto> JNum v] (u_spring c))"
  by (simp add: toValue_def set_toValue_def hostConnected_def recorder_def Let_def)

text \<open>
  C3. Retargeting keeps the kinetic state: with the spring of the specification, in any
  state and whether or not the host is connected, \<open>currentValue\<close> and \<open>currentVelocity\<close>
  are the same right after the assignment as before it; the target is the new value
  (for a spring whose configuration is valid) and the getter returns it.
\<close>

theorem retarget_keeps_position_and_velocity:
  "currentValue (specSpring now) (set_toValue (specSpring now) host v c)
     = currentValue (specSpring now) c
   \<and> currentVelocity (specSpring now) (set_toValue (specSpring now) host v c)
     = currentVelocity (specSpring now) c
   \<and> target (u_spring (set_toValue (specSpring now) host v c))
     = (if config_ok (params (u_spring c)) then v else target (u_spring c))
   \<and> toValue (set_toValue (specSpring now) host v c) = v"
proof -
  have pos: "position (u_spring (set_toValue (specSpring now) host v c)) = position (u_spring c)"
    by (rule set_toValue_keeps_observation)
      (simp_all add: specSpring_updateConfig_toValue, simp_all add: specSpring_def spec_start_kinetic)
  have vel: "velocity (u_spring (set_toValue (specSpring now) host v c)) = velocity (u_spring c)"
    by (rule set_toValue_keeps_observation)
      (simp_all add: specSpring_updateConfig_toValue, simp_all add: specSpring_def spec_start_kinetic)
  have tgt: "target (u_spring (set_toValue (specSpring now) host v c))
      = (if config_ok (params (u_spring c)) then v else target (u_spring c))"
    by (simp add: set_toValue_def Let_def specSpring_updateConfig_toValue)
      (simp add: specSpring_def spec_start_kinetic)
  have get: "toValue (set_toValue (specSpring now) host v c) = v"
    by (simp add: toValue_def set_toValue_def Let_def)
  from pos vel tgt get show ?thesis
    by (simp add: currentValue_def currentVelocity_def specSpring_def)
qed

text \<open>
  C4. After assigning \<open>toPosition\<close> the getter returns the position assigned, whatever
  the axes report, and each axis has been retargeted through its own \<open>toValue\<close> setter:
  the x axis to the x component, the y axis to the y component.
\<close>

theorem toPosition_setter_stores_and_fans_out:
  "toPosition (set_toPosition W host p c) = p
   \<and> u_xSpring (set_toPosition W host p c) = set_toValue W host (pos_x p) (u_xSpring c)
   \<and> u_ySpring (set_toPosition W host p c) = set_toValue W host (pos_y p) (u_ySpring c)
   \<and> toValue (u_xSpring (set_toPosition W host p c)) = pos_x p
   \<and> toValue (u_ySpring (set_toPosition W host p c)) = pos_y p"
  by (simp add: toPosition_def set_toPosition_def toValue_def set_toValue_def Let_def)

text \<open>
  C5. \<open>currentPosition\<close> is the pair of the axes' current values: its x component is the
  x-axis spring's current value and its y component the y-axis spring's.
\<close>

theorem currentPosition_pairs_axis_values:
  "currentPosition W c =
     \<lparr>pos_x = spring_currentValue W (u_spring (u_xSpring c)),
      pos_y = spring_currentValue W (u_spring (u_ySpring c))\<rparr>
   \<and> pos_x (currentPosition W c) = currentValue W (u_xSpring c)
   \<and> pos_y (currentPosition W c) = currentValue W (u_ySpring c)"
  by (simp add: currentPosition_def currentValue_def)




text \<open>
  C7. \<open>hostConnected\<close> calls the spring's \<open>start()\<close> and \<open>hostDisconnected\<close> its
  \<open>stop()\<close>, leaving the stored target alone; the hooks of the 2D controller apply the
  same hook to the x-axis and to the y-axis controller and change nothing else. For
  the recording spring the one call added is \<open>start\<close>, respectively \<open>stop\<close>, on each axis.
\<close>

theorem lifecycle_hooks_start_and_stop:
  "u_spring (hostConnected W c) = spring_start W (u_spring c)
   \<and> u_spring (hostDisconnected W c) = spring_stop W (u_spring c)
   \<and> toValue (hostConnected W c) = toValue c
   \<and> toValue (hostDisconnected W c) = toValue c
   \<and> hostConnected2D W d =
       d\<lparr>u_xSpring := hostConnected W (u_xSpring d), u_ySpring := hostConnected W (u_ySpring d)\<rparr>
   \<and> hostDisconnected2D W d =
       d\<lparr>u_xSpring := hostDisconnected W (u_xSpring d),
         u_ySpring := hostDisconnected W (u_ySpring d)\<rparr>
   \<and> calls (u_spring (hostConnected recorder r)) = calls (u_spring r) @ [Start]
   \<and> calls (u_spring (hostDisconnected recorder r)) = calls (u_spring r) @ [Stop]
   \<and> calls (u_spring (u_xSpring (hostConnected2D recorder q))) =
       calls (u_spring (u_xSpring q)) @ [Start]
   \<and> calls (u_spring (u_ySpring (hostConnected2D recorder q))) =
       calls (u_spring (u_ySpring q)) @ [Start]
   \<and> calls (u_spring (u_xSpring (hostDisconnected2D recorder q))) =
       calls (u_spring (u_xSpring q)) @ [Stop]
   \<and> calls (u_spring (u_ySpring (hostDisconnected2D recorder q))) =
       calls (u_spring (u_ySpring q)) @ [Stop]"
  by (simp add: hostConnected_def hostDisconnected_def hostConnected2D_def
      hostDisconnected2D_def toValue_def recorder_def Let_def)

text \<open>
  C8. A configuration with a non-positive mass or stiffness, or a negative damping or
  rest threshold, is rejected at the call: with the spring of the specification the
  constructor of \<open>SpringController\<close> ends in a configuration error and yields no
  controller (so none with a clamped value), as does the constructor of
  \<open>SpringController2D\<close>, whose axes inherit the field, and as does a reconfiguration of
  a spring with such a patch. The controller's own setter sends patches of \<open>toValue\<close>
  alone.
\<close>

theorem invalid_configuration_fails_at_construction:
  assumes "cfg ''mass'' = Some (JNum m) \<and> m \<le> 0
     \<or> cfg ''stiffness'' = Some (JNum k) \<and> k \<le> 0
     \<or> cfg ''damping'' = Some (JNum d) \<and> d < 0
     \<or> cfg ''restDisplacementThreshold'' = Some (JNum t) \<and> t < 0
     \<or> cfg ''restVelocityThreshold'' = Some (JNum u) \<and> u < 0"
  shows "snd (SpringController_new (specSpring now) host (Some cfg)) = Inl ConfigurationError
     \<and> snd (SpringController2D_new (specSpring now) host (Some cfg)) = Inl ConfigurationError
     \<and> spec_updateConfig cfg s = Inl ConfigurationError"
proof -
  have bad: "\<not> config_ok cfg"
    using assms by (rule invalid_not_ok)
  have one: "snd (SpringController_new (specSpring now) host (Some cfg)) = Inl ConfigurationError"
    using bad by (simp add: SpringController_new_def specSpring_def spec_new_invalid spread_def)
  have "\<not> config_ok (spread (Some (axis_options (Some cfg) v)))" for v
    using bad by (simp add: spread_def config_ok_axis)
  then have two:
    "snd (SpringController2D_new (specSpring now) host (Some cfg)) = Inl ConfigurationError"
    by (simp add: SpringController2D_new_def SpringController_new_def specSpring_def
        spec_new_invalid Let_def)
  have three: "spec_updateConfig cfg s = Inl ConfigurationError"
    using merged_invalid [OF assms] by (simp add: spec_updateConfig_def Let_def)
  from one two three show ?thesis by simp
qed

theorem invalid_configuration_witness:
  "snd (SpringController_new (specSpring 0) \<lparr>isConnected = True, controllers = 0\<rparr>
         (Some [''mass'' \<mapsto> JNum 0, ''stiffness'' \<mapsto> JNum 210])) = Inl ConfigurationError
   \<and> snd (SpringController2D_new (specSpring 0) \<lparr>isConnected = True, controllers = 0\<rparr>
         (Some [''mass'' \<mapsto> JNum 0, ''stiffness'' \<mapsto> JNum 210])) = Inl ConfigurationError"
  using invalid_configuration_fails_at_construction
    [of "[''mass'' \<mapsto> JNum 0, ''stiffness'' \<mapsto> JNum 210]" 0 1 0 0 0 0
        "\<lparr>isConnected = True, controllers = 0\<rparr>"]
  by simp



text \<open>
  C10. The default target is zero: a \<open>SpringController\<close> constructed from options that
  carry no \<open>toValue\<close> (no options at all, the key missing, or the key undefined) has
  \<open>toValue = 0\<close>, and a \<open>SpringController2D\<close> constructed from options that carry no
  \<open>toPosition\<close> has \<open>toPosition = {x: 0, y: 0}\<close>, with both axes targeting 0.
\<close>

theorem default_target_is_zero:
  "((opt_prop options ''toValue'' = None \<or> opt_prop options ''toValue'' = Some JUndefined)
      \<longrightarrow> snd (SpringController_new W host options) = Inr c \<longrightarrow> toValue c = 0)
   \<and> ((opt_prop options ''toPosition'' = None \<or> opt_prop options ''toPosition'' = Some JUndefined)
      \<longrightarrow> snd (SpringController2D_new W host options) = Inr d
      \<longrightarrow> toPosition d = \<lparr>pos_x = 0, pos_y = 0\<rparr>
          \<and> toValue (u_xSpring d) = 0 \<and> toValue (u_ySpring d) = 0)"
  by (auto simp: SpringController_new_def SpringController2D_new_def toValue_def toPosition_def
      nullish_number_def nullish_position_def axis_options_def opt_prop_def Let_def
      split: sum.splits prod.splits)

theorem default_target_witness:
  "\<exists>c d. snd (SpringController_new recorder \<lparr>isConnected = False, controllers = 0\<rparr> None) = Inr c
     \<and> toValue c = 0
     \<and> snd (SpringController2D_new recorder \<lparr>isConnected = False, controllers = 0\<rparr> None) = Inr d
     \<and> toPosition d = \<lparr>pos_x = 0, pos_y = 0\<rparr>"
proof -
  obtain c where c: "snd (SpringController_new recorder \<lparr>isConnected = False, controllers = 0\<rparr> None)
      = Inr c"
    by (simp add: SpringController_new_recorder)
  obtain d where d: "snd (SpringController2D_new recorder \<lparr>isConnected = False, controllers = 0\<rparr>
      None) = Inr d"
    by (simp add: SpringController2D_new_def SpringController_new_recorder Let_def)
  have none: "opt_prop None ''toValue'' = None" "opt_prop None ''toPosition'' = None"
    by (simp_all add: opt_prop_def)
  from c d none default_target_is_zero
    [of None recorder "\<lparr>isConnected = False, controllers = 0\<rparr>" c d]
  show ?thesis
    by blast
qed

end
